theory Spec2Isabelle
  imports Complex_Main "HOL-Library.Product_Lexorder" "HOL-Library.Multiset"
begin

section \<open>Data model: the tables \<open>public.banks\<close> and \<open>public.bets\<close>\<close>

text \<open>
  The schema (the SQL migration shipped with the repository) declares every money column
  and the odds column as \<open>DECIMAL(10,2)\<close>: an exact decimal with two fractional digits and
  at most ten digits in all. Such values are modelled as rationals; storing a value in such
  a column is the function \<open>numeric_10_2\<close> below. Identifiers are UUIDs, modelled as
  strings (the pages hold them in string state, with the empty string for "none selected").
  Timestamps and dates are counted as natural numbers (ticks and days).
\<close>

type_synonym uuid = string
type_synonym numeric = rat
type_synonym timestamptz = nat
type_synonym date = nat

datatype bet_status = Won | Lost | Open

record bank =
  banks_id :: uuid
  banks_user_id :: uuid
  name :: string
  initial_balance :: numeric
  current_balance :: numeric
  banks_created_at :: timestamptz
  banks_updated_at :: timestamptz

record bet =
  bets_id :: uuid
  bank_id :: uuid
  user_id :: uuid
  amount :: numeric
  odds :: numeric
  status :: bet_status
  bet_type :: string
  description :: "string option"
  profit :: "numeric option"
  bet_date :: date
  created_at :: timestamptz
  updated_at :: timestamptz

record database =
  banks :: "bank list"
  bets :: "bet list"

datatype sql_error =
    NumericOverflow
  | RlsViolation
  | UniqueViolation
  | ForeignKeyViolation

subsection \<open>Storing into a \<open>DECIMAL(10,2)\<close> column\<close>

text \<open>
  An assignment to a \<open>DECIMAL(10,2)\<close> column or row field rounds the value to two
  fractional digits, ties away from zero, and fails with "numeric field overflow" when
  the rounded value needs more than eight digits before the decimal point.
\<close>

definition round2 :: "numeric \<Rightarrow> numeric" where
  "round2 x = sgn x * (of_int \<lfloor>\<bar>x\<bar> * 100 + 1 / 2\<rfloor> / 100)"

definition numeric_10_2 :: "numeric \<Rightarrow> sql_error + numeric" where
  "numeric_10_2 x = (if \<bar>round2 x\<bar> < 100000000 then Inr (round2 x) else Inl NumericOverflow)"

text \<open>A value that a \<open>DECIMAL(10,2)\<close> column can hold.\<close>

definition is_numeric_10_2 :: "numeric \<Rightarrow> bool" where
  "is_numeric_10_2 x \<longleftrightarrow> x * 100 \<in> \<int> \<and> \<bar>x\<bar> < 100000000"

section \<open>The trigger function \<open>update_bank_balance\<close>\<close>

subsection \<open>First block: the profit of the row being written\<close>

text \<open>
  \<^verbatim>\<open>
  IF NEW.status = 'won' THEN
    NEW.profit = NEW.amount * NEW.odds - NEW.amount;
  ELSIF NEW.status = 'lost' THEN
    NEW.profit = -NEW.amount;
  ELSE
    NEW.profit = 0;
  END IF;
  \<close>
  \<open>settle_raw\<close> is the expression on the right of the assignment, \<open>settle\<close> the value that
  reaches the field \<open>NEW.profit\<close>, a \<open>DECIMAL(10,2)\<close>.
\<close>

definition settle_raw :: "numeric \<Rightarrow> numeric \<Rightarrow> bet_status \<Rightarrow> numeric" where
  "settle_raw stake od outcome =
     (if outcome = Won then stake * od - stake
      else if outcome = Lost then - stake
      else 0)"

definition settle :: "numeric \<Rightarrow> numeric \<Rightarrow> bet_status \<Rightarrow> sql_error + numeric" where
  "settle stake od outcome = numeric_10_2 (settle_raw stake od outcome)"

subsection \<open>Second block: the balance of the bank\<close>

text \<open>
  \<^verbatim>\<open>
  UPDATE public.banks
  SET current_balance = initial_balance + (
    SELECT COALESCE(SUM(profit), 0)
    FROM public.bets
    WHERE bank_id = NEW.bank_id AND status != 'open'
  ),
  updated_at = NOW()
  WHERE id = NEW.bank_id;
  \<close>
  \<open>SUM\<close> skips NULLs and is NULL over no value at all; \<open>COALESCE\<close> replaces that NULL.
  The new balance is stored in a \<open>DECIMAL(10,2)\<close> column. The BEFORE UPDATE trigger on
  \<open>banks\<close> sets \<open>updated_at\<close> to \<open>NOW()\<close> as the statement itself does.
\<close>

definition sql_sum :: "numeric option list \<Rightarrow> numeric option" where
  "sql_sum vs = (case List.map_filter (\<lambda>v. v) vs of [] \<Rightarrow> None | ps \<Rightarrow> Some (sum_list ps))"

definition coalesce :: "'a option \<Rightarrow> 'a \<Rightarrow> 'a" where
  "coalesce v d = (case v of None \<Rightarrow> d | Some x \<Rightarrow> x)"

definition settled_profit_sum :: "uuid \<Rightarrow> bet list \<Rightarrow> numeric" where
  "settled_profit_sum bk rows =
     coalesce (sql_sum (map profit (filter (\<lambda>r. bank_id r = bk \<and> status r \<noteq> Open) rows))) 0"

fun set_current_balance ::
  "uuid \<Rightarrow> numeric \<Rightarrow> timestamptz \<Rightarrow> bank list \<Rightarrow> sql_error + bank list" where
  "set_current_balance bk s now [] = Inr []"
| "set_current_balance bk s now (b # bs) =
     (if banks_id b = bk then
        (case numeric_10_2 (initial_balance b + s) of
           Inl e \<Rightarrow> Inl e
         | Inr c \<Rightarrow>
             (case set_current_balance bk s now bs of
                Inl e \<Rightarrow> Inl e
              | Inr bs' \<Rightarrow> Inr (b\<lparr>current_balance := c, banks_updated_at := now\<rparr> # bs')))
      else
        (case set_current_balance bk s now bs of
           Inl e \<Rightarrow> Inl e
         | Inr bs' \<Rightarrow> Inr (b # bs')))"

text \<open>
  The \<open>UPDATE\<close> statement as a whole: the balance reconciliation of one bank over the
  rows that the \<open>bets\<close> table holds when the statement runs. The function is declared
  \<open>SECURITY DEFINER\<close>, so the statement runs with the rights of the owner of the tables
  and no row-level policy filters it.
\<close>

definition reconcile :: "timestamptz \<Rightarrow> uuid \<Rightarrow> database \<Rightarrow> sql_error + database" where
  "reconcile now bk db =
     (case set_current_balance bk (settled_profit_sum bk (bets db)) now (banks db) of
        Inl e \<Rightarrow> Inl e
      | Inr bs \<Rightarrow> Inr (db\<lparr>banks := bs\<rparr>))"

text \<open>
  The trigger function: it receives the row about to be written (\<open>NEW\<close>) and returns the
  row that will be written. It is attached by
  \<^verbatim>\<open>CREATE TRIGGER update_bet_profit BEFORE INSERT OR UPDATE ON public.bets FOR EACH ROW\<close>,
  so \<open>db\<close> is the database before the row is written.
\<close>

definition update_bank_balance ::
  "timestamptz \<Rightarrow> bet \<Rightarrow> database \<Rightarrow> sql_error + (bet \<times> database)" where
  "update_bank_balance now NEW db =
     (case settle (amount NEW) (odds NEW) (status NEW) of
        Inl e \<Rightarrow> Inl e
      | Inr p \<Rightarrow>
          (case reconcile now (bank_id NEW) db of
             Inl e \<Rightarrow> Inl e
           | Inr db' \<Rightarrow> Inr (NEW\<lparr>profit := Some p\<rparr>, db')))"

text \<open>
  \<^verbatim>\<open>CREATE TRIGGER update_bets_updated_at BEFORE UPDATE ON public.bets\<close> runs
  \<open>update_updated_at_column\<close>, which sets \<open>NEW.updated_at = NOW()\<close>.
\<close>

definition update_updated_at_column :: "timestamptz \<Rightarrow> bet \<Rightarrow> bet" where
  "update_updated_at_column now NEW = NEW\<lparr>updated_at := now\<rparr>"

section \<open>Statements on \<open>public.bets\<close> under row-level security\<close>

text \<open>
  Every statement of a page runs as the signed-in user \<open>uid\<close> (\<open>auth.uid()\<close>). The
  policies on \<open>bets\<close> are \<open>USING (auth.uid() = user_id)\<close> for SELECT, UPDATE and DELETE
  and \<open>WITH CHECK (auth.uid() = user_id)\<close> for INSERT; those on \<open>banks\<close> are the same
  with the bank's \<open>user_id\<close>.
\<close>

definition select_bets :: "uuid \<Rightarrow> database \<Rightarrow> bet list" where
  "select_bets uid db = filter (\<lambda>r. user_id r = uid) (bets db)"

definition select_banks :: "uuid \<Rightarrow> database \<Rightarrow> bank list" where
  "select_banks uid db = filter (\<lambda>b. banks_user_id b = uid) (banks db)"

text \<open>
  \<open>INSERT INTO bets\<close> of one row. The values are first converted to the column types,
  then the BEFORE INSERT trigger runs, then the INSERT policy is checked on the row the
  trigger returned, then the primary key and the foreign key to \<open>banks\<close>. An error
  aborts the statement and with it the trigger's update of \<open>banks\<close>.
\<close>

definition coerce_opt :: "numeric option \<Rightarrow> sql_error + numeric option" where
  "coerce_opt v =
     (case v of
        None \<Rightarrow> Inr None
      | Some x \<Rightarrow> (case numeric_10_2 x of Inl e \<Rightarrow> Inl e | Inr y \<Rightarrow> Inr (Some y)))"

definition coerce_row :: "bet \<Rightarrow> sql_error + bet" where
  "coerce_row r =
     (case numeric_10_2 (amount r) of
        Inl e \<Rightarrow> Inl e
      | Inr a \<Rightarrow>
          (case numeric_10_2 (odds r) of
             Inl e \<Rightarrow> Inl e
           | Inr od \<Rightarrow>
               (case coerce_opt (profit r) of
                  Inl e \<Rightarrow> Inl e
                | Inr p \<Rightarrow> Inr (r\<lparr>amount := a, odds := od, profit := p\<rparr>))))"

definition insert_bet :: "uuid \<Rightarrow> timestamptz \<Rightarrow> bet \<Rightarrow> database \<Rightarrow> sql_error + database" where
  "insert_bet uid now row db =
     (case coerce_row row of
        Inl e \<Rightarrow> Inl e
      | Inr r \<Rightarrow>
          (case update_bank_balance now r db of
             Inl e \<Rightarrow> Inl e
           | Inr (NEW, db') \<Rightarrow>
               if user_id NEW \<noteq> uid then Inl RlsViolation
               else if bets_id NEW \<in> set (map bets_id (bets db')) then Inl UniqueViolation
               else if bank_id NEW \<notin> set (map banks_id (banks db')) then Inl ForeignKeyViolation
               else Inr (db'\<lparr>bets := bets db' @ [NEW]\<rparr>)))"

text \<open>
  \<open>UPDATE bets SET ... WHERE id = bid\<close>. The columns a statement may set are the
  outcome, the stake, the odds and the profit; \<open>None\<close> leaves a column as it is. \<open>id\<close> is
  the primary key, so at most one row qualifies; a row of another user does not qualify
  (UPDATE policy) and the statement then changes nothing and reports no error. The values
  to set are converted to the column types before any row is looked at, so a value that
  does not fit its column fails the statement also when no row qualifies. The two
  BEFORE UPDATE triggers run in the order of their names, \<open>update_bet_profit\<close> first.
\<close>

record bet_patch =
  set_status :: "bet_status option"
  set_amount :: "numeric option"
  set_odds :: "numeric option"
  set_profit :: "numeric option"

definition coerce_patch :: "bet_patch \<Rightarrow> sql_error + bet_patch" where
  "coerce_patch p =
     (case coerce_opt (set_amount p) of
        Inl e \<Rightarrow> Inl e
      | Inr a \<Rightarrow>
          (case coerce_opt (set_odds p) of
             Inl e \<Rightarrow> Inl e
           | Inr od \<Rightarrow>
               (case coerce_opt (set_profit p) of
                  Inl e \<Rightarrow> Inl e
                | Inr pr \<Rightarrow> Inr (p\<lparr>set_amount := a, set_odds := od, set_profit := pr\<rparr>))))"

definition apply_patch :: "bet_patch \<Rightarrow> bet \<Rightarrow> bet" where
  "apply_patch p r =
     r\<lparr>status := coalesce (set_status p) (status r),
       amount := coalesce (set_amount p) (amount r),
       odds := coalesce (set_odds p) (odds r),
       profit := (case set_profit p of None \<Rightarrow> profit r | Some v \<Rightarrow> Some v)\<rparr>"

definition update_bet ::
  "uuid \<Rightarrow> timestamptz \<Rightarrow> uuid \<Rightarrow> bet_patch \<Rightarrow> database \<Rightarrow> sql_error + database" where
  "update_bet uid now bid p db =
     (case coerce_patch p of
        Inl e \<Rightarrow> Inl e
      | Inr p' \<Rightarrow>
          (case find (\<lambda>r. bets_id r = bid \<and> user_id r = uid) (bets db) of
             None \<Rightarrow> Inr db
           | Some old \<Rightarrow>
               (case update_bank_balance now (apply_patch p' old) db of
                  Inl e \<Rightarrow> Inl e
                | Inr (NEW, db') \<Rightarrow>
                    Inr (db'\<lparr>bets :=
                      map (\<lambda>x. if bets_id x = bid \<and> user_id x = uid
                                then update_updated_at_column now NEW else x) (bets db')\<rparr>))))"

text \<open>
  \<open>DELETE FROM bets WHERE id = bid\<close>: the rows of the caller with that id go. No trigger
  is declared for DELETE on \<open>bets\<close>.
\<close>

definition delete_bet :: "uuid \<Rightarrow> uuid \<Rightarrow> database \<Rightarrow> database" where
  "delete_bet uid bid db =
     db\<lparr>bets := filter (\<lambda>r. \<not> (bets_id r = bid \<and> user_id r = uid)) (bets db)\<rparr>"

section \<open>The pages\<close>

subsection \<open>NewBet: \<open>handleSubmit\<close>\<close>

text \<open>
  The form keeps the stake and the odds as text and reads them with \<open>parseFloat\<close>, a
  function of the JavaScript runtime that is taken as a parameter here. Its result is a
  number or NaN; numbers are modelled by their exact value. \<open>session\<close> is the signed-in
  user, if any; \<open>new_id\<close> is the value \<open>gen_random_uuid()\<close> gives the new row.
\<close>

datatype js_number = NaN | Num rat

definition isNaN :: "js_number \<Rightarrow> bool" where
  "isNaN x \<longleftrightarrow> x = NaN"

text \<open>Comparisons with NaN are false.\<close>

definition js_le :: "js_number \<Rightarrow> rat \<Rightarrow> bool" where
  "js_le x c = (case x of NaN \<Rightarrow> False | Num a \<Rightarrow> a \<le> c)"

definition js_lt :: "js_number \<Rightarrow> rat \<Rightarrow> bool" where
  "js_lt x c = (case x of NaN \<Rightarrow> False | Num a \<Rightarrow> a < c)"

definition js_value :: "js_number \<Rightarrow> rat" where
  "js_value x = (case x of NaN \<Rightarrow> 0 | Num a \<Rightarrow> a)"

record new_bet_form =
  bankId :: uuid
  amount_text :: string
  odds_text :: string
  status_choice :: bet_status
  description_text :: string
  betDate :: date

text \<open>
  The three toasts of the validation: "El monto debe ser un numero positivo",
  "La cuota debe ser mayor o igual a 1" and "Debes seleccionar un bank".
\<close>

datatype validation_error = AmountNotPositive | OddsBelowOne | NoBankSelected

datatype submit_result =
    ValidationError validation_error
  | NoSession
  | InsertFailed sql_error
  | Registered

definition handleSubmit ::
  "(string \<Rightarrow> js_number) \<Rightarrow> uuid option \<Rightarrow> timestamptz \<Rightarrow> uuid \<Rightarrow> new_bet_form \<Rightarrow> database
     \<Rightarrow> submit_result \<times> database" where
  "handleSubmit parseFloat session now new_id form db =
     (let betAmount = parseFloat (amount_text form);
          betOdds = parseFloat (odds_text form)
      in if isNaN betAmount \<or> js_le betAmount 0 then (ValidationError AmountNotPositive, db)
         else if isNaN betOdds \<or> js_lt betOdds 1 then (ValidationError OddsBelowOne, db)
         else if bankId form = [] then (ValidationError NoBankSelected, db)
         else
           (case session of
              None \<Rightarrow> (NoSession, db)
            | Some uid \<Rightarrow>
                (case insert_bet uid now
                        \<lparr>bets_id = new_id, bank_id = bankId form, user_id = uid,
                         amount = js_value betAmount, odds = js_value betOdds,
                         status = status_choice form, bet_type = ''simple'',
                         description = Some (description_text form), profit = None,
                         bet_date = betDate form, created_at = now, updated_at = now\<rparr> db of
                   Inl e \<Rightarrow> (InsertFailed e, db)
                 | Inr db' \<Rightarrow> (Registered, db'))))"

subsection \<open>History and DailyBets: \<open>updateBetStatus\<close>\<close>

definition updateBetStatus ::
  "uuid \<Rightarrow> timestamptz \<Rightarrow> uuid \<Rightarrow> bet_status \<Rightarrow> database \<Rightarrow> sql_error + database" where
  "updateBetStatus uid now betId newStatus db =
     update_bet uid now betId
       \<lparr>set_status = Some newStatus, set_amount = None, set_odds = None, set_profit = None\<rparr> db"

subsection \<open>History: \<open>fetchBets\<close>\<close>

text \<open>
  The query selects the caller's rows of the chosen bank, narrows them by the status filter
  unless it is "all", orders them by \<open>bet_date\<close> descending and then \<open>created_at\<close>
  descending, and asks for the rows \<open>(currentPage - 1) * ITEMS_PER_PAGE\<close> to
  \<open>currentPage * ITEMS_PER_PAGE - 1\<close> together with the exact count of all rows that
  match (\<open>count: "exact"\<close>). The range is the store's OFFSET and LIMIT: \<open>from\<close> rows are
  skipped and \<open>to - from + 1\<close> rows are kept. A negative offset is an error of the store,
  and so is, the count being known, an offset greater than the count ("requested range
  not satisfiable"); an offset equal to the count is answered with no row. On an error
  \<open>fetchBets\<close> throws into its \<open>catch\<close>, which shows a toast and sets neither the list
  nor the count: that is the result \<open>None\<close>. The order of rows that agree on both columns
  is the store's choice; the model fixes one.
\<close>

definition ITEMS_PER_PAGE :: int where
  "ITEMS_PER_PAGE = 10"

datatype status_filter = All_statuses | Status bet_status

definition order_desc :: "bet list \<Rightarrow> bet list" where
  "order_desc rows = rev (sort_key (\<lambda>r. (bet_date r, created_at r)) rows)"

definition range_rows :: "int \<Rightarrow> int \<Rightarrow> 'a list \<Rightarrow> 'a list option" where
  "range_rows from to rows =
     (if from < 0 \<or> to < from \<or> int (length rows) < from then None
      else Some (take (nat (to - from + 1)) (drop (nat from) rows)))"

definition fetchBets ::
  "uuid \<Rightarrow> uuid \<Rightarrow> status_filter \<Rightarrow> int \<Rightarrow> database \<Rightarrow> (bet list \<times> nat) option" where
  "fetchBets uid selectedBank statusFilter currentPage db =
     (let query = filter (\<lambda>r. bank_id r = selectedBank) (select_bets uid db);
          query' = (case statusFilter of
                      All_statuses \<Rightarrow> query
                    | Status s \<Rightarrow> filter (\<lambda>r. status r = s) query)
      in case range_rows ((currentPage - 1) * ITEMS_PER_PAGE) (currentPage * ITEMS_PER_PAGE - 1)
                (order_desc query') of
           None \<Rightarrow> None
         | Some data \<Rightarrow> Some (data, length query'))"

definition totalPages :: "nat \<Rightarrow> int" where
  "totalPages totalBets = \<lceil>rat_of_nat totalBets / rat_of_int ITEMS_PER_PAGE\<rceil>"

subsection \<open>Dashboard: \<open>fetchDailyStats\<close>; DailyBets: \<open>calculateDailySummary\<close>\<close>

text \<open>
  The two reducers add JavaScript numbers, which are IEEE doubles: their sum is not the
  sum of the decimals they were read from, and their addition is not associative. The
  type \<open>'n\<close> of these numbers and the operations on it that the reducers use are
  therefore parameters: \<open>num_add\<close> is \<open>+\<close>, \<open>num_zero\<close> is the literal \<open>0\<close>,
  \<open>num_falsy\<close> holds of the numbers that \<open>||\<close> replaces by its right operand (0, -0 and
  NaN), and \<open>num_of_decimal\<close> is the number that a decimal of the store's reply is read
  as. The counters go up by 1 from 0 and are modelled as natural numbers.
\<close>

record 'n number_ops =
  num_add :: "'n \<Rightarrow> 'n \<Rightarrow> 'n"
  num_zero :: 'n
  num_falsy :: "'n \<Rightarrow> bool"
  num_of_decimal :: "numeric \<Rightarrow> 'n"

text \<open>The \<open>Bet\<close> objects of the pages: a row of \<open>bets\<close> as the store's reply gives it.\<close>

record 'n js_bet =
  js_id :: uuid
  js_amount :: 'n
  js_odds :: 'n
  js_status :: bet_status
  js_description :: "string option"
  js_profit :: "'n option"
  js_bet_date :: date

definition read_bet :: "'n number_ops \<Rightarrow> bet \<Rightarrow> 'n js_bet" where
  "read_bet ops r =
     \<lparr>js_id = bets_id r, js_amount = num_of_decimal ops (amount r),
      js_odds = num_of_decimal ops (odds r), js_status = status r,
      js_description = description r, js_profit = map_option (num_of_decimal ops) (profit r),
      js_bet_date = bet_date r\<rparr>"

text \<open>\<open>bet.profit || 0\<close>: 0 when the profit is null or falsy, the profit otherwise.\<close>

definition or_zero :: "'n number_ops \<Rightarrow> 'n option \<Rightarrow> 'n" where
  "or_zero ops v =
     (case v of None \<Rightarrow> num_zero ops | Some x \<Rightarrow> if num_falsy ops x then num_zero ops else x)"

record 'n daily_stats =
  total_bets :: nat
  total_won :: nat
  total_lost :: nat
  net_profit :: 'n

definition daily_stats_step :: "'n number_ops \<Rightarrow> 'n daily_stats \<Rightarrow> 'n js_bet \<Rightarrow> 'n daily_stats" where
  "daily_stats_step ops acc b =
     (let acc1 = acc\<lparr>total_bets := total_bets acc + 1\<rparr>
      in if js_status b = Won then
           acc1\<lparr>total_won := total_won acc1 + 1,
                net_profit := num_add ops (net_profit acc1) (or_zero ops (js_profit b))\<rparr>
         else if js_status b = Lost then
           acc1\<lparr>total_lost := total_lost acc1 + 1,
                net_profit := num_add ops (net_profit acc1) (or_zero ops (js_profit b))\<rparr>
         else acc1)"

definition fetchDailyStats ::
  "'n number_ops \<Rightarrow> uuid \<Rightarrow> uuid \<Rightarrow> date \<Rightarrow> database \<Rightarrow> 'n daily_stats" where
  "fetchDailyStats ops uid bank today db =
     foldl (daily_stats_step ops)
       \<lparr>total_bets = 0, total_won = 0, total_lost = 0, net_profit = num_zero ops\<rparr>
       (map (read_bet ops)
          (filter (\<lambda>r. bet_date r = today)
             (filter (\<lambda>r. bank_id r = bank) (select_bets uid db))))"

record 'n daily_summary =
  total :: nat
  won :: nat
  lost :: nat
  summary_profit :: 'n
  wagered :: 'n

definition daily_summary_step ::
  "'n number_ops \<Rightarrow> 'n daily_summary \<Rightarrow> 'n js_bet \<Rightarrow> 'n daily_summary" where
  "daily_summary_step ops acc b =
     (let acc1 = acc\<lparr>total := total acc + 1\<rparr>;
          acc2 = (if js_status b = Won then
                    acc1\<lparr>won := won acc1 + 1,
                         summary_profit :=
                           num_add ops (summary_profit acc1) (or_zero ops (js_profit b))\<rparr>
                  else if js_status b = Lost then
                    acc1\<lparr>lost := lost acc1 + 1,
                         summary_profit :=
                           num_add ops (summary_profit acc1) (or_zero ops (js_profit b))\<rparr>
                  else acc1)
      in acc2\<lparr>wagered := num_add ops (wagered acc2) (js_amount b)\<rparr>)"

definition calculateDailySummary :: "'n number_ops \<Rightarrow> 'n js_bet list \<Rightarrow> 'n daily_summary" where
  "calculateDailySummary ops rows =
     foldl (daily_summary_step ops)
       \<lparr>total = 0, won = 0, lost = 0, summary_profit = num_zero ops, wagered = num_zero ops\<rparr>
       rows"

section \<open>The properties, in the words of the specification\<close>

text \<open>
  The balance invariant: every bank's current balance is its initial balance plus the
  profits of the wagers of that bank that are not open.
\<close>

definition balance_consistent :: "database \<Rightarrow> bool" where
  "balance_consistent db \<longleftrightarrow>
     list_all
       (\<lambda>b. current_balance b = initial_balance b + settled_profit_sum (banks_id b) (bets db))
       (banks db)"

text \<open>The stored profit of a row is what the trigger computes from the row's own columns.\<close>

definition profit_settled :: "bet \<Rightarrow> bool" where
  "profit_settled r =
     (case profit r of
        None \<Rightarrow> False
      | Some v \<Rightarrow> settle (amount r) (odds r) (status r) = Inr v)"

text \<open>
  The wagers a history page is about: those of the caller in the chosen bank that pass the
  outcome filter; and the order of the page, later settlement date first and, on the same
  date, later creation first.
\<close>

definition status_matches :: "status_filter \<Rightarrow> bet \<Rightarrow> bool" where
  "status_matches f r = (case f of All_statuses \<Rightarrow> True | Status s \<Rightarrow> status r = s)"

definition matching_wagers :: "uuid \<Rightarrow> uuid \<Rightarrow> status_filter \<Rightarrow> database \<Rightarrow> bet list" where
  "matching_wagers uid bank f db =
     filter (\<lambda>r. user_id r = uid \<and> bank_id r = bank \<and> status_matches f r) (bets db)"

definition newest_first :: "bet \<Rightarrow> bet \<Rightarrow> bool" where
  "newest_first a b \<longleftrightarrow>
     bet_date b < bet_date a \<or> (bet_date b = bet_date a \<and> created_at b \<le> created_at a)"

text \<open>
  The wagers of a daily aggregate, and the numbers that a day's net profit is made of:
  one for each wager that is not open, in the order of the rows, which is the wager's
  profit, or 0 when the profit is null.
\<close>

definition day_wagers :: "uuid \<Rightarrow> uuid \<Rightarrow> date \<Rightarrow> database \<Rightarrow> bet list" where
  "day_wagers uid bank day db =
     filter (\<lambda>r. user_id r = uid \<and> bank_id r = bank \<and> bet_date r = day) (bets db)"

definition settled_contributions :: "'n number_ops \<Rightarrow> 'n js_bet list \<Rightarrow> 'n list" where
  "settled_contributions ops rows =
     map (\<lambda>b. or_zero ops (js_profit b)) (filter (\<lambda>b. js_status b \<noteq> Open) rows)"

section \<open>Example rows\<close>

text \<open>
  The bank \<open>b1\<close> of user \<open>u1\<close>, opened with 1000, shown with a given current balance and
  time of last update; and a wager on that bank, placed by a given user.
\<close>

definition example_bank :: "numeric \<Rightarrow> timestamptz \<Rightarrow> bank" where
  "example_bank balance t =
     \<lparr>banks_id = ''b1'', banks_user_id = ''u1'', name = ''Bank'', initial_balance = 1000,
      current_balance = balance, banks_created_at = 0, banks_updated_at = t\<rparr>"

definition example_bet ::
  "uuid \<Rightarrow> uuid \<Rightarrow> numeric \<Rightarrow> numeric \<Rightarrow> bet_status \<Rightarrow> numeric option \<Rightarrow> timestamptz
     \<Rightarrow> timestamptz \<Rightarrow> bet" where
  "example_bet i u a od s p t t' =
     \<lparr>bets_id = i, bank_id = ''b1'', user_id = u, amount = a, odds = od, status = s,
      bet_type = ''simple'', description = None, profit = p, bet_date = 1,
      created_at = t, updated_at = t'\<rparr>"

definition example_parseFloat :: "string \<Rightarrow> js_number" where
  "example_parseFloat s =
     (if s = ''100'' then Num 100
      else if s = ''2.5'' then Num (5 / 2)
      else if s = ''0'' then Num 0
      else if s = ''0.5'' then Num (1 / 2)
      else NaN)"

definition example_form :: "uuid \<Rightarrow> string \<Rightarrow> string \<Rightarrow> new_bet_form" where
  "example_form b a od =
     \<lparr>bankId = b, amount_text = a, odds_text = od, status_choice = Won,
      description_text = [], betDate = 1\<rparr>"

section \<open>Rounding to two decimals\<close>

lemma floor_rat_numeral_div: "\<lfloor>numeral a / numeral b :: rat\<rfloor> = numeral a div numeral b"
  by (metis floor_divide_of_int_eq of_int_numeral)

lemma floor_add_half: "\<lfloor>rat_of_int k + 1 / 2\<rfloor> = k"
  by (rule floor_unique) simp_all

lemma floor_half: "\<lfloor>1 / 2 :: rat\<rfloor> = 0"
  using floor_add_half [of 0] by simp

lemma round2_cents: "round2 x * 100 \<in> \<int>"
  by (simp add: round2_def sgn_if)

lemma round2_exact:
  assumes "x * 100 \<in> \<int>"
  shows "round2 x = x"
proof -
  from assms obtain k :: int where k: "x * 100 = of_int k"
    by (auto elim: Ints_cases)
  have abs_k: "\<bar>x\<bar> * 100 = of_int \<bar>k\<bar>"
    using k by (simp add: abs_mult [symmetric] del: abs_mult)
  have "\<lfloor>\<bar>x\<bar> * 100 + 1 / 2\<rfloor> = \<bar>k\<bar>"
    unfolding abs_k by (rule floor_add_half)
  then have "round2 x = sgn x * (\<bar>x\<bar> * 100 / 100)"
    using abs_k by (simp add: round2_def)
  then show ?thesis
    by (simp add: sgn_mult_abs)
qed

lemma round2_nonneg:
  assumes "0 \<le> x"
  shows "round2 x = of_int \<lfloor>x * 100 + 1 / 2\<rfloor> / 100"
  using assms by (cases "x = 0") (simp_all add: round2_def sgn_if floor_half)

lemma round2_nearest:
  assumes "0 \<le> x"
  shows "round2 x - 1 / 200 \<le> x \<and> x < round2 x + 1 / 200"
proof -
  let ?n = "\<lfloor>x * 100 + 1 / 2\<rfloor>"
  have "of_int ?n \<le> x * 100 + 1 / 2" "x * 100 + 1 / 2 < of_int ?n + 1"
    by linarith+
  then show ?thesis
    unfolding round2_nonneg [OF assms] by (simp add: field_simps)
qed

lemma numeric_10_2_exact: "is_numeric_10_2 x \<Longrightarrow> numeric_10_2 x = Inr x"
  by (simp add: is_numeric_10_2_def numeric_10_2_def round2_exact)

lemma numeric_10_2_result: "numeric_10_2 x = Inr y \<Longrightarrow> is_numeric_10_2 y \<and> y = round2 x"
  by (auto simp: is_numeric_10_2_def numeric_10_2_def round2_cents split: if_splits)

lemmas eval_numeric = numeric_10_2_def round2_def floor_rat_numeral_div floor_half

section \<open>The profit of a wager\<close>

text \<open>
  C3, as the code has it. For a stake above 0 and odds of at least 1 that the columns
  \<open>amount\<close> and \<open>odds\<close> can hold, the profit the trigger assigns is minus the stake for a
  lost wager and 0 for an open one. For a won wager, let \<open>p\<close> be \<open>stake * odds - stake\<close>
  rounded to two decimals, ties upwards: the multiple of 0.01 with
  \<open>p - 0.005 \<le> stake * odds - stake < p + 0.005\<close>, which is \<open>stake * odds - stake\<close> itself
  whenever \<open>stake * odds\<close> has two decimals. The profit assigned is \<open>p\<close> when \<open>p\<close> is below
  100000000, and otherwise the assignment fails with a numeric overflow.
\<close>

theorem settle_rounds_to_cents:
  assumes "0 < stake" and "1 \<le> od" and "is_numeric_10_2 stake" and "is_numeric_10_2 od"
  shows "settle stake od Lost = Inr (- stake) \<and>
         settle stake od Open = Inr 0 \<and>
         (\<exists>p. p * 100 \<in> \<int> \<and>
              p - 1 / 200 \<le> stake * od - stake \<and> stake * od - stake < p + 1 / 200 \<and>
              (stake * od * 100 \<in> \<int> \<longrightarrow> p = stake * od - stake) \<and>
              settle stake od Won = (if p < 100000000 then Inr p else Inl NumericOverflow))"
proof -
  let ?x = "stake * od - stake"
  have lost: "settle stake od Lost = Inr (- stake)"
    using assms(3) by (simp add: settle_def settle_raw_def numeric_10_2_exact is_numeric_10_2_def)
  have opn: "settle stake od Open = Inr 0"
    by (simp add: settle_def settle_raw_def numeric_10_2_def round2_def)
  have nonneg: "0 \<le> ?x"
  proof -
    have "?x = stake * (od - 1)" by (simp add: algebra_simps)
    with assms(1,2) show ?thesis by simp
  qed
  have near: "round2 ?x - 1 / 200 \<le> ?x \<and> ?x < round2 ?x + 1 / 200"
    using nonneg by (rule round2_nearest)
  have exact: "stake * od * 100 \<in> \<int> \<longrightarrow> round2 ?x = ?x"
  proof
    assume "stake * od * 100 \<in> \<int>"
    moreover have "stake * 100 \<in> \<int>" using assms(3) by (simp add: is_numeric_10_2_def)
    ultimately have "stake * od * 100 - stake * 100 \<in> \<int>" by (rule Ints_diff)
    then have "?x * 100 \<in> \<int>" by (simp add: algebra_simps)
    then show "round2 ?x = ?x" by (rule round2_exact)
  qed
  have r_nonneg: "0 \<le> round2 ?x"
    using nonneg by (simp add: round2_nonneg)
  then have "\<bar>round2 ?x\<bar> = round2 ?x" by simp
  then have won: "settle stake od Won =
      (if round2 ?x < 100000000 then Inr (round2 ?x) else Inl NumericOverflow)"
    by (simp add: settle_def settle_raw_def numeric_10_2_def)
  from near exact round2_cents [of ?x] won have
    "\<exists>p. p * 100 \<in> \<int> \<and> p - 1 / 200 \<le> ?x \<and> ?x < p + 1 / 200 \<and>
         (stake * od * 100 \<in> \<int> \<longrightarrow> p = ?x) \<and>
         settle stake od Won = (if p < 100000000 then Inr p else Inl NumericOverflow)"
    by blast
  with lost opn show ?thesis by blast
qed

text \<open>
  The theorem at a stake of 10.01 and odds of 1.33, where the won wager's profit is
  3.30, the nearest cent to 3.3033; and at a stake of 99999999.99 and odds of 3, where the
  profit 199999999.98 does not fit the column and the assignment fails.
\<close>

theorem settle_rounds_to_cents_witness:
  "settle (1001 / 100) (133 / 100) Lost = Inr (- (1001 / 100)) \<and>
   settle (1001 / 100) (133 / 100) Open = Inr 0 \<and>
   settle (1001 / 100) (133 / 100) Won = Inr (33 / 10) \<and>
   settle (9999999999 / 100) 3 Won = Inl NumericOverflow"
proof -
  have h: "(0::rat) < 1001 / 100" "(1::rat) \<le> 133 / 100"
    "is_numeric_10_2 (1001 / 100)" "is_numeric_10_2 (133 / 100)"
    by (simp_all add: is_numeric_10_2_def)
  from settle_rounds_to_cents [OF h] obtain p :: rat where
    lost_open: "settle (1001 / 100) (133 / 100) Lost = Inr (- (1001 / 100))"
      "settle (1001 / 100) (133 / 100) Open = Inr 0"
    and cents: "p * 100 \<in> \<int>"
    and lo: "p - 1 / 200 \<le> 1001 / 100 * (133 / 100) - 1001 / 100"
    and hi: "1001 / 100 * (133 / 100) - 1001 / 100 < p + 1 / 200"
    and won: "settle (1001 / 100) (133 / 100) Won =
        (if p < 100000000 then Inr p else Inl NumericOverflow)"
    by blast
  from cents obtain k :: int where k: "p * 100 = of_int k"
    by (auto elim: Ints_cases)
  from lo hi have "rat_of_int k < 331" "329 < rat_of_int k"
    unfolding k [symmetric] by simp_all
  then have "k < 331" "329 < k" by simp_all
  then have "k = 330" by simp
  with k have p: "p = 33 / 10" by simp
  have g: "(0::rat) < 9999999999 / 100" "(1::rat) \<le> 3"
    "is_numeric_10_2 (9999999999 / 100)" "is_numeric_10_2 3"
    by (simp_all add: is_numeric_10_2_def)
  from settle_rounds_to_cents [OF g] obtain q :: rat where
    q_hi: "9999999999 / 100 * 3 - 9999999999 / 100 < q + 1 / 200"
    and big: "settle (9999999999 / 100) 3 Won =
        (if q < 100000000 then Inr q else Inl NumericOverflow)"
    by blast
  from q_hi have "\<not> q < 100000000" by simp
  with big have "settle (9999999999 / 100) 3 Won = Inl NumericOverflow" by simp
  with lost_open won p show ?thesis by simp
qed

text \<open>
  C3 as the specification words it asks for exactly \<open>stake * odds - stake\<close>; at a stake
  of 10.01 and odds of 1.33 that is 3.3033, which is not what the trigger assigns.
\<close>

theorem settle_won_not_exact:
  "(0::rat) < 1001 / 100 \<and> (1::rat) \<le> 133 / 100 \<and>
   settle (1001 / 100) (133 / 100) Won \<noteq> Inr ((1001 / 100) * (133 / 100) - 1001 / 100)"
  by (simp add: settle_def settle_raw_def eval_numeric)

lemmas eval_store =
  insert_bet_def update_bet_def updateBetStatus_def delete_bet_def coerce_row_def coerce_opt_def
  coerce_patch_def apply_patch_def update_bank_balance_def update_updated_at_column_def
  reconcile_def settled_profit_sum_def sql_sum_def coalesce_def List.map_filter_def
  settle_def settle_raw_def eval_numeric example_bank_def example_bet_def
  select_bets_def select_banks_def

section \<open>The balance after a write\<close>

text \<open>
  C1. The invariant asked for is \<open>balance_consistent\<close> after every insert, update and
  delete of a wager. The trigger runs before the row is written, so its sum is taken over
  the table without the write. On the bank opened with 1000 and no wager, where the
  invariant holds, inserting a won wager of stake 100 at odds 2.5 stores the profit 150
  and leaves the current balance at 1000: the invariant no longer holds.
\<close>

theorem insert_leaves_balance_behind:
  "balance_consistent \<lparr>banks = [example_bank 1000 0], bets = []\<rparr> \<and>
   insert_bet ''u1'' 1 (example_bet ''w1'' ''u1'' 100 (5 / 2) Won None 1 1)
       \<lparr>banks = [example_bank 1000 0], bets = []\<rparr> =
     Inr \<lparr>banks = [example_bank 1000 1],
          bets = [example_bet ''w1'' ''u1'' 100 (5 / 2) Won (Some 150) 1 1]\<rparr> \<and>
   \<not> balance_consistent
       \<lparr>banks = [example_bank 1000 1],
        bets = [example_bet ''w1'' ''u1'' 100 (5 / 2) Won (Some 150) 1 1]\<rparr>"
  by (simp add: balance_consistent_def eval_store)

text \<open>
  C2. The scenario of the specification, run on the code: the profits are 150, -50 and
  then 0 for the reopened wager, as stated, but the balances after the three writes are
  1000, 1150 and 1100 where the specification has 1150, 1100 and 1050. Each write leaves
  the balance that was right before it.
\<close>

theorem scenario_balances_one_write_behind:
  "insert_bet ''u1'' 1 (example_bet ''w1'' ''u1'' 100 (5 / 2) Won None 1 1)
       \<lparr>banks = [example_bank 1000 0], bets = []\<rparr> =
     Inr \<lparr>banks = [example_bank 1000 1],
          bets = [example_bet ''w1'' ''u1'' 100 (5 / 2) Won (Some 150) 1 1]\<rparr> \<and>
   insert_bet ''u1'' 2 (example_bet ''w2'' ''u1'' 50 (18 / 10) Lost None 2 2)
       \<lparr>banks = [example_bank 1000 1],
        bets = [example_bet ''w1'' ''u1'' 100 (5 / 2) Won (Some 150) 1 1]\<rparr> =
     Inr \<lparr>banks = [example_bank 1150 2],
          bets = [example_bet ''w1'' ''u1'' 100 (5 / 2) Won (Some 150) 1 1,
                  example_bet ''w2'' ''u1'' 50 (18 / 10) Lost (Some (- 50)) 2 2]\<rparr> \<and>
   updateBetStatus ''u1'' 3 ''w1'' Open
       \<lparr>banks = [example_bank 1150 2],
        bets = [example_bet ''w1'' ''u1'' 100 (5 / 2) Won (Some 150) 1 1,
                example_bet ''w2'' ''u1'' 50 (18 / 10) Lost (Some (- 50)) 2 2]\<rparr> =
     Inr \<lparr>banks = [example_bank 1100 3],
          bets = [example_bet ''w1'' ''u1'' 100 (5 / 2) Open (Some 0) 1 3,
                  example_bet ''w2'' ''u1'' 50 (18 / 10) Lost (Some (- 50)) 2 2]\<rparr>"
  by (simp add: eval_store)

text \<open>
  C4. No trigger runs on DELETE. Here the won wager is first written a second time, which
  brings the balance to 1150 and makes the invariant hold; deleting the wager then leaves
  the bank row as it is, with the balance 1150 and no wager to account for it.
\<close>

theorem delete_leaves_balance:
  "updateBetStatus ''u1'' 2 ''w1'' Won
       \<lparr>banks = [example_bank 1000 1],
        bets = [example_bet ''w1'' ''u1'' 100 (5 / 2) Won (Some 150) 1 1]\<rparr> =
     Inr \<lparr>banks = [example_bank 1150 2],
          bets = [example_bet ''w1'' ''u1'' 100 (5 / 2) Won (Some 150) 1 2]\<rparr> \<and>
   balance_consistent
       \<lparr>banks = [example_bank 1150 2],
        bets = [example_bet ''w1'' ''u1'' 100 (5 / 2) Won (Some 150) 1 2]\<rparr> \<and>
   delete_bet ''u1'' ''w1''
       \<lparr>banks = [example_bank 1150 2],
        bets = [example_bet ''w1'' ''u1'' 100 (5 / 2) Won (Some 150) 1 2]\<rparr> =
     \<lparr>banks = [example_bank 1150 2], bets = []\<rparr> \<and>
   \<not> balance_consistent \<lparr>banks = [example_bank 1150 2], bets = []\<rparr>"
  by (simp add: balance_consistent_def eval_store)

section \<open>Reconciling twice\<close>

lemma set_current_balance_again:
  "set_current_balance bk s now bs = Inr bs1 \<Longrightarrow>
   \<exists>bs2. set_current_balance bk s now' bs1 = Inr bs2 \<and>
         map current_balance bs2 = map current_balance bs1"
proof (induction bs arbitrary: bs1)
  case Nil
  then show ?case by simp
next
  case (Cons b bs)
  show ?case
  proof (cases "set_current_balance bk s now bs")
    case (Inl e)
    with Cons.prems show ?thesis by (simp split: if_splits sum.splits)
  next
    case (Inr bs')
    from Cons.IH [OF Inr] obtain bs2 where
      bs2: "set_current_balance bk s now' bs' = Inr bs2"
        "map current_balance bs2 = map current_balance bs'"
      by blast
    show ?thesis
    proof (cases "banks_id b = bk")
      case True
      with Cons.prems Inr obtain c where
        c: "numeric_10_2 (initial_balance b + s) = Inr c"
          "bs1 = b\<lparr>current_balance := c, banks_updated_at := now\<rparr> # bs'"
        by (auto split: sum.splits)
      with True bs2 show ?thesis by simp
    next
      case False
      with Cons.prems Inr have "bs1 = b # bs'" by simp
      with False bs2 show ?thesis by simp
    qed
  qed
qed

lemma set_current_balance_fails_again:
  "set_current_balance bk s now bs = Inl e \<Longrightarrow> set_current_balance bk s now' bs = Inl e"
  by (induction bs) (auto split: if_splits sum.splits)

lemma reconcile_bets: "reconcile now bk db = Inr db1 \<Longrightarrow> bets db1 = bets db"
  by (auto simp: reconcile_def split: sum.splits)

text \<open>
  C5. When the reconciliation of a bank succeeds, running it again on the result, at any
  later time, succeeds too and leaves every bank's current balance and every wager as the
  first run left them; when it fails (a balance that does not fit its column), nothing is
  written and running it again fails in the same way.
\<close>

theorem reconcile_idempotent:
  "(reconcile now bk db = Inr db1 \<longrightarrow>
      (\<exists>db2. reconcile now' bk db1 = Inr db2 \<and>
         map current_balance (banks db2) = map current_balance (banks db1) \<and>
         bets db2 = bets db1)) \<and>
   (reconcile now bk db = Inl e \<longrightarrow> reconcile now' bk db = Inl e)"
proof (intro conjI impI)
  assume "reconcile now bk db = Inr db1"
  then obtain bs1 where
    bs1: "set_current_balance bk (settled_profit_sum bk (bets db)) now (banks db) = Inr bs1"
      and db1: "db1 = db\<lparr>banks := bs1\<rparr>"
    by (auto simp: reconcile_def split: sum.splits)
  from set_current_balance_again [OF bs1, of now'] obtain bs2 where
    "set_current_balance bk (settled_profit_sum bk (bets db)) now' bs1 = Inr bs2"
    "map current_balance bs2 = map current_balance bs1"
    by blast
  then show "\<exists>db2. reconcile now' bk db1 = Inr db2 \<and>
         map current_balance (banks db2) = map current_balance (banks db1) \<and>
         bets db2 = bets db1"
    by (simp add: reconcile_def db1)
next
  assume "reconcile now bk db = Inl e"
  then have "set_current_balance bk (settled_profit_sum bk (bets db)) now (banks db) = Inl e"
    by (auto simp: reconcile_def split: sum.splits)
  then show "reconcile now' bk db = Inl e"
    by (simp add: reconcile_def set_current_balance_fails_again [of _ _ now _ e now'])
qed

text \<open>
  The theorem on the bank with one won wager of profit 150: the first run sets the
  balance to 1150 and the second keeps it; and on a wager of profit 99999999, where
  the balance 100000999 does not fit the column, both runs fail.
\<close>

theorem reconcile_idempotent_witness:
  "reconcile 7 ''b1''
       \<lparr>banks = [example_bank 1000 1],
        bets = [example_bet ''w1'' ''u1'' 100 (5 / 2) Won (Some 150) 1 1]\<rparr> =
     Inr \<lparr>banks = [example_bank 1150 7],
          bets = [example_bet ''w1'' ''u1'' 100 (5 / 2) Won (Some 150) 1 1]\<rparr> \<and>
   (\<exists>db2. reconcile 8 ''b1''
              \<lparr>banks = [example_bank 1150 7],
               bets = [example_bet ''w1'' ''u1'' 100 (5 / 2) Won (Some 150) 1 1]\<rparr> = Inr db2 \<and>
          map current_balance (banks db2) = [1150] \<and>
          bets db2 = [example_bet ''w1'' ''u1'' 100 (5 / 2) Won (Some 150) 1 1]) \<and>
   reconcile 7 ''b1''
       \<lparr>banks = [example_bank 1000 1],
        bets = [example_bet ''w1'' ''u1'' 99999999 2 Won (Some 99999999) 1 1]\<rparr> =
     Inl NumericOverflow \<and>
   reconcile 8 ''b1''
       \<lparr>banks = [example_bank 1000 1],
        bets = [example_bet ''w1'' ''u1'' 99999999 2 Won (Some 99999999) 1 1]\<rparr> =
     Inl NumericOverflow"
proof -
  let ?w = "example_bet ''w1'' ''u1'' 100 (5 / 2) Won (Some 150) 1 1"
  let ?big = "example_bet ''w1'' ''u1'' 99999999 2 Won (Some 99999999) 1 1"
  have first: "reconcile 7 ''b1'' \<lparr>banks = [example_bank 1000 1], bets = [?w]\<rparr> =
      Inr \<lparr>banks = [example_bank 1150 7], bets = [?w]\<rparr>"
    by (simp add: eval_store)
  have fails: "reconcile 7 ''b1'' \<lparr>banks = [example_bank 1000 1], bets = [?big]\<rparr> =
      Inl NumericOverflow"
    by (simp add: eval_store)
  from reconcile_idempotent
    [of 7 "''b1''" "\<lparr>banks = [example_bank 1000 1], bets = [?w]\<rparr>"
        "\<lparr>banks = [example_bank 1150 7], bets = [?w]\<rparr>" 8]
    first
  have again: "\<exists>db2. reconcile 8 ''b1'' \<lparr>banks = [example_bank 1150 7], bets = [?w]\<rparr> = Inr db2 \<and>
      map current_balance (banks db2) = [1150] \<and> bets db2 = [?w]"
    by (simp add: example_bank_def)
  from reconcile_idempotent
    [of 7 "''b1''" "\<lparr>banks = [example_bank 1000 1], bets = [?big]\<rparr>" _ 8 NumericOverflow]
    fails
  have "reconcile 8 ''b1'' \<lparr>banks = [example_bank 1000 1], bets = [?big]\<rparr> = Inl NumericOverflow"
    by simp
  with first again fails show ?thesis by simp
qed

section \<open>The stored profit\<close>

lemma update_bank_balance_row:
  assumes "update_bank_balance now r db = Inr (NEW, db')"
  shows "\<exists>v. NEW = r\<lparr>profit := Some v\<rparr> \<and> settle (amount r) (odds r) (status r) = Inr v \<and>
           bets db' = bets db"
  using assms
  by (auto simp: update_bank_balance_def split: sum.splits dest: reconcile_bets)

lemma update_bank_balance_settled:
  assumes "update_bank_balance now r db = Inr (NEW, db')"
  shows "profit_settled NEW \<and> bets_id NEW = bets_id r \<and> user_id NEW = user_id r \<and>
         bets db' = bets db"
  using update_bank_balance_row [OF assms] by (auto simp: profit_settled_def)

text \<open>
  C6. A successful INSERT adds one row, and that row's profit is the trigger's function of
  the row's stake, odds and outcome, whatever profit the statement supplied. A successful
  UPDATE, whatever columns it sets (the profit included), leaves every row it addresses
  with the profit the trigger computes from that row's stake, odds and outcome, and
  every other row is a row of the table before.
\<close>

theorem stored_profit_is_settled:
  "(insert_bet uid now row db = Inr db1 \<longrightarrow>
      (\<exists>r. bets db1 = bets db @ [r] \<and> profit_settled r)) \<and>
   (update_bet uid now bid p db = Inr db2 \<longrightarrow>
      (\<forall>r \<in> set (bets db2).
         if bets_id r = bid \<and> user_id r = uid then profit_settled r else r \<in> set (bets db)))"
proof (intro conjI impI)
  assume "insert_bet uid now row db = Inr db1"
  then obtain r0 NEW db' where
    "update_bank_balance now r0 db = Inr (NEW, db')" "db1 = db'\<lparr>bets := bets db' @ [NEW]\<rparr>"
    by (auto simp: insert_bet_def split: sum.splits if_splits)
  with update_bank_balance_settled [of now r0 db NEW db']
  show "\<exists>r. bets db1 = bets db @ [r] \<and> profit_settled r" by auto
next
  assume upd: "update_bet uid now bid p db = Inr db2"
  show "\<forall>r \<in> set (bets db2).
         if bets_id r = bid \<and> user_id r = uid then profit_settled r else r \<in> set (bets db)"
  proof (cases "find (\<lambda>r. bets_id r = bid \<and> user_id r = uid) (bets db)")
    case None
    with upd have "db2 = db" by (auto simp: update_bet_def split: sum.splits)
    moreover from None have "\<forall>r \<in> set (bets db). \<not> (bets_id r = bid \<and> user_id r = uid)"
      by (simp add: find_None_iff)
    ultimately show ?thesis by auto
  next
    case (Some old)
    then have old: "bets_id old = bid" "user_id old = uid"
      by (auto simp: find_Some_iff)
    from upd Some obtain p' NEW db' where
      tr: "update_bank_balance now (apply_patch p' old) db = Inr (NEW, db')"
      and db2: "db2 = db'\<lparr>bets := map (\<lambda>x. if bets_id x = bid \<and> user_id x = uid
                                then update_updated_at_column now NEW else x) (bets db')\<rparr>"
      by (auto simp: update_bet_def split: sum.splits)
    from update_bank_balance_settled [OF tr] old
    have "profit_settled NEW" "bets_id NEW = bid" "user_id NEW = uid" "bets db' = bets db"
      by (simp_all add: apply_patch_def)
    then have "profit_settled (update_updated_at_column now NEW)"
      "bets_id (update_updated_at_column now NEW) = bid"
      "user_id (update_updated_at_column now NEW) = uid"
      by (simp_all add: update_updated_at_column_def profit_settled_def split: option.splits)
    with db2 \<open>bets db' = bets db\<close> show ?thesis by auto
  qed
qed

text \<open>
  The theorem on an INSERT that supplies the profit 999 for a won wager of stake 100 at
  odds 2.5, and on an UPDATE that sets the profit of that wager to 999: the row holds 150
  after each.
\<close>

theorem stored_profit_is_settled_witness:
  "insert_bet ''u1'' 1 (example_bet ''w1'' ''u1'' 100 (5 / 2) Won (Some 999) 1 1)
       \<lparr>banks = [example_bank 1000 0], bets = []\<rparr> =
     Inr \<lparr>banks = [example_bank 1000 1],
          bets = [example_bet ''w1'' ''u1'' 100 (5 / 2) Won (Some 150) 1 1]\<rparr> \<and>
   profit_settled (example_bet ''w1'' ''u1'' 100 (5 / 2) Won (Some 150) 1 1) \<and>
   update_bet ''u1'' 2 ''w1''
       \<lparr>set_status = None, set_amount = None, set_odds = None, set_profit = Some 999\<rparr>
       \<lparr>banks = [example_bank 1000 1],
        bets = [example_bet ''w1'' ''u1'' 100 (5 / 2) Won (Some 150) 1 1]\<rparr> =
     Inr \<lparr>banks = [example_bank 1150 2],
          bets = [example_bet ''w1'' ''u1'' 100 (5 / 2) Won (Some 150) 1 2]\<rparr> \<and>
   profit_settled (example_bet ''w1'' ''u1'' 100 (5 / 2) Won (Some 150) 1 2)"
proof -
  let ?d0 = "\<lparr>banks = [example_bank 1000 0], bets = []\<rparr>"
  let ?d1 = "\<lparr>banks = [example_bank 1000 1],
              bets = [example_bet ''w1'' ''u1'' 100 (5 / 2) Won (Some 150) 1 1]\<rparr>"
  let ?d2 = "\<lparr>banks = [example_bank 1150 2],
              bets = [example_bet ''w1'' ''u1'' 100 (5 / 2) Won (Some 150) 1 2]\<rparr>"
  let ?p = "\<lparr>set_status = None, set_amount = None, set_odds = None, set_profit = Some 999\<rparr>"
  have ins: "insert_bet ''u1'' 1 (example_bet ''w1'' ''u1'' 100 (5 / 2) Won (Some 999) 1 1) ?d0
      = Inr ?d1"
    by (simp add: eval_store)
  have upd: "update_bet ''u1'' 2 ''w1'' ?p ?d1 = Inr ?d2"
    by (simp add: eval_store)
  from stored_profit_is_settled
    [of "''u1''" 1 "example_bet ''w1'' ''u1'' 100 (5 / 2) Won (Some 999) 1 1" ?d0 ?d1] ins
  have one: "profit_settled (example_bet ''w1'' ''u1'' 100 (5 / 2) Won (Some 150) 1 1)"
    by simp
  from stored_profit_is_settled [of "''u1''" 2 _ ?d1 _ "''w1''" ?p ?d2] upd
  have two: "profit_settled (example_bet ''w1'' ''u1'' 100 (5 / 2) Won (Some 150) 1 2)"
    by (simp add: example_bet_def)
  from ins one upd two show ?thesis by simp
qed

section \<open>The history page\<close>

lemma order_desc_mset: "mset (order_desc rows) = mset rows"
  by (simp add: order_desc_def)

lemma order_desc_length: "length (order_desc rows) = length rows"
  by (simp add: order_desc_def)

lemma order_desc_sorted: "sorted_wrt newest_first (order_desc rows)"
proof -
  let ?k = "\<lambda>r. (bet_date r, created_at r)"
  have "sorted (map ?k (sort_key ?k rows))"
    by (rule sorted_sort_key)
  then have "sorted_wrt (\<lambda>a b. ?k a \<le> ?k b) (sort_key ?k rows)"
    by (simp add: sorted_map)
  then have "sorted_wrt (\<lambda>a b. ?k b \<le> ?k a) (order_desc rows)"
    by (simp add: order_desc_def sorted_wrt_rev)
  moreover have "\<And>a b. ?k b \<le> ?k a \<Longrightarrow> newest_first a b"
    by (auto simp: newest_first_def less_eq_prod_def)
  ultimately show ?thesis
    by (rule sorted_wrt_mono_rel [rotated]) simp
qed

lemma fetchBets_query:
  "(case f of All_statuses \<Rightarrow> filter (\<lambda>r. bank_id r = bank) (select_bets uid db)
    | Status s \<Rightarrow> filter (\<lambda>r. status r = s) (filter (\<lambda>r. bank_id r = bank) (select_bets uid db)))
   = matching_wagers uid bank f db"
  by (cases f) (auto simp: matching_wagers_def select_bets_def status_matches_def intro: filter_cong)

lemma page_range:
  assumes "1 \<le> p"
  shows "range_rows ((p - 1) * ITEMS_PER_PAGE) (p * ITEMS_PER_PAGE - 1) rows =
           (if int (length rows) < 10 * (p - 1) then None
            else Some (take 10 (drop (nat (10 * (p - 1))) rows)))"
proof -
  have "(p * 10 - 1) - (p - 1) * 10 + 1 = (10::int)" by (simp add: algebra_simps)
  with assms show ?thesis
    by (simp add: range_rows_def ITEMS_PER_PAGE_def mult.commute)
qed

lemma page_length:
  assumes "1 \<le> p" and "10 * (p - 1) \<le> int (length rows)"
  shows "int (length (take 10 (drop (nat (10 * (p - 1))) rows))) =
           min 10 (int (length rows) - 10 * (p - 1))"
  using assms by (auto simp: min_def)

lemma beyond_last_page:
  "totalPages T < p \<longleftrightarrow> int T \<le> 10 * (p - 1)"
proof -
  have "totalPages T < p \<longleftrightarrow> rat_of_nat T / 10 \<le> of_int p - 1"
    by (simp add: totalPages_def ITEMS_PER_PAGE_def ceiling_less_iff)
  also have "\<dots> \<longleftrightarrow> rat_of_int (int T) \<le> rat_of_int (10 * (p - 1))"
    by (simp add: field_simps)
  also have "\<dots> \<longleftrightarrow> int T \<le> 10 * (p - 1)"
    by (rule of_int_le_iff)
  finally show ?thesis .
qed

text \<open>
  C7, as the code has it. Let \<open>T\<close> be the number of matching wagers and \<open>p\<close> a page number
  of at least 1. When \<open>10 * (p - 1) \<le> T\<close>, \<open>fetchBets\<close> returns the total \<open>T\<close> together
  with the items at the positions \<open>10 * (p - 1)\<close> and following, at most ten of them, of an
  arrangement of all matching wagers by settlement date descending and then by creation
  time descending; the items are in that order and their number is
  \<open>min 10 (T - 10 * (p - 1))\<close>, which is 0 when \<open>10 * (p - 1) = T\<close>. When
  \<open>10 * (p - 1) > T\<close> the store refuses the range and \<open>fetchBets\<close> returns neither items
  nor a total. A page \<open>p\<close> is beyond \<open>ceil (T / 10)\<close> exactly when \<open>T \<le> 10 * (p - 1)\<close>.
\<close>

theorem fetchBets_page:
  assumes "1 \<le> p"
  shows "(10 * (p - 1) \<le> int (length (matching_wagers uid bank f db)) \<longrightarrow>
          (\<exists>items ordered.
             fetchBets uid bank f p db = Some (items, length (matching_wagers uid bank f db)) \<and>
             mset ordered = mset (matching_wagers uid bank f db) \<and>
             sorted_wrt newest_first ordered \<and>
             items = take 10 (drop (nat (10 * (p - 1))) ordered) \<and>
             sorted_wrt newest_first items \<and>
             int (length items) =
               min 10 (int (length (matching_wagers uid bank f db)) - 10 * (p - 1)))) \<and>
         (int (length (matching_wagers uid bank f db)) < 10 * (p - 1) \<longrightarrow>
          fetchBets uid bank f p db = None) \<and>
         (totalPages (length (matching_wagers uid bank f db)) < p \<longleftrightarrow>
          int (length (matching_wagers uid bank f db)) \<le> 10 * (p - 1))"
proof -
  let ?m = "matching_wagers uid bank f db"
  let ?ordered = "order_desc ?m"
  let ?items = "take 10 (drop (nat (10 * (p - 1))) ?ordered)"
  have fetch: "fetchBets uid bank f p db =
      (if int (length ?m) < 10 * (p - 1) then None else Some (?items, length ?m))"
    by (simp add: fetchBets_def Let_def fetchBets_query page_range [OF assms] order_desc_length)
  have inside: "\<exists>items ordered.
      fetchBets uid bank f p db = Some (items, length ?m) \<and>
      mset ordered = mset ?m \<and> sorted_wrt newest_first ordered \<and>
      items = take 10 (drop (nat (10 * (p - 1))) ordered) \<and>
      sorted_wrt newest_first items \<and>
      int (length items) = min 10 (int (length ?m) - 10 * (p - 1))"
    if le: "10 * (p - 1) \<le> int (length ?m)"
  proof -
    from le have f: "fetchBets uid bank f p db = Some (?items, length ?m)"
      by (simp add: fetch)
    from le have "10 * (p - 1) \<le> int (length ?ordered)"
      by (simp add: order_desc_length)
    with assms have "int (length ?items) = min 10 (int (length ?ordered) - 10 * (p - 1))"
      by (rule page_length)
    then have count: "int (length ?items) = min 10 (int (length ?m) - 10 * (p - 1))"
      by (simp only: order_desc_length)
    have sorted_items: "sorted_wrt newest_first ?items"
      by (intro sorted_wrt_take sorted_wrt_drop order_desc_sorted)
    from f order_desc_mset [of ?m] order_desc_sorted [of ?m] sorted_items count
    show ?thesis by blast
  qed
  have outside: "fetchBets uid bank f p db = None" if "int (length ?m) < 10 * (p - 1)"
    using that by (simp add: fetch)
  from inside outside beyond_last_page [of "length ?m" p] show ?thesis by blast
qed

text \<open>
  The theorem on a bank with two wagers of the same date: the first page returns both,
  the later one first, with the total 2, and the second page, whose offset 10 is beyond
  the total, returns nothing; and on the first page of a bank without wagers, whose
  offset 0 is the total: no item, and the total 0.
\<close>

theorem fetchBets_page_witness:
  "fetchBets ''u1'' ''b1'' All_statuses 1
       \<lparr>banks = [example_bank 1150 2],
        bets = [example_bet ''w1'' ''u1'' 100 (5 / 2) Won (Some 150) 1 1,
                example_bet ''w2'' ''u1'' 50 (18 / 10) Lost (Some (- 50)) 2 2]\<rparr> =
     Some ([example_bet ''w2'' ''u1'' 50 (18 / 10) Lost (Some (- 50)) 2 2,
            example_bet ''w1'' ''u1'' 100 (5 / 2) Won (Some 150) 1 1], 2) \<and>
   fetchBets ''u1'' ''b1'' All_statuses 2
       \<lparr>banks = [example_bank 1150 2],
        bets = [example_bet ''w1'' ''u1'' 100 (5 / 2) Won (Some 150) 1 1,
                example_bet ''w2'' ''u1'' 50 (18 / 10) Lost (Some (- 50)) 2 2]\<rparr> =
     None \<and>
   fetchBets ''u1'' ''b1'' All_statuses 1 \<lparr>banks = [example_bank 1000 0], bets = []\<rparr> =
     Some ([], 0)"
proof -
  let ?w1 = "example_bet ''w1'' ''u1'' 100 (5 / 2) Won (Some 150) 1 1"
  let ?w2 = "example_bet ''w2'' ''u1'' 50 (18 / 10) Lost (Some (- 50)) 2 2"
  let ?db = "\<lparr>banks = [example_bank 1150 2], bets = [?w1, ?w2]\<rparr>"
  let ?none = "\<lparr>banks = [example_bank 1000 0], bets = []\<rparr>"
  have m: "matching_wagers ''u1'' ''b1'' All_statuses ?db = [?w1, ?w2]"
    by (simp add: matching_wagers_def status_matches_def example_bet_def)
  have m_none: "matching_wagers ''u1'' ''b1'' All_statuses ?none = []"
    by (simp add: matching_wagers_def)
  have ord: "\<And>ordered. mset ordered = mset [?w1, ?w2] \<Longrightarrow> sorted_wrt newest_first ordered \<Longrightarrow>
      ordered = [?w2, ?w1]"
  proof -
    fix ordered :: "bet list"
    assume ms: "mset ordered = mset [?w1, ?w2]" and srt: "sorted_wrt newest_first ordered"
    have nf: "\<not> newest_first ?w1 ?w2" by (simp add: newest_first_def example_bet_def)
    from ms have "length ordered = 2" by (metis length_Cons list.size(3) size_mset numeral_2_eq_2)
    then obtain a b where ab: "ordered = [a, b]"
      by (metis (no_types, opaque_lifting) length_0_conv length_Suc_conv numeral_2_eq_2)
    from ms have "set ordered = set [?w1, ?w2]" by (rule mset_eq_setD)
    with ab have "{a, b} = {?w1, ?w2}" by simp
    then have "(a = ?w1 \<and> b = ?w2) \<or> (a = ?w2 \<and> b = ?w1)"
      by (simp add: doubleton_eq_iff)
    with srt ab nf show "ordered = [?w2, ?w1]" by auto
  qed
  have h: "(1::int) \<le> 1" "(1::int) \<le> 2" by simp_all
  have total: "length (matching_wagers ''u1'' ''b1'' All_statuses ?db) = 2"
    unfolding m by simp
  have total_none: "length (matching_wagers ''u1'' ''b1'' All_statuses ?none) = 0"
    unfolding m_none by simp
  have in1: "10 * ((1::int) - 1) \<le> int (length (matching_wagers ''u1'' ''b1'' All_statuses ?db))"
    unfolding total by simp
  have out2: "int (length (matching_wagers ''u1'' ''b1'' All_statuses ?db)) < 10 * ((2::int) - 1)"
    unfolding total by simp
  have in_none: "10 * ((1::int) - 1) \<le> int (length (matching_wagers ''u1'' ''b1'' All_statuses ?none))"
    unfolding total_none by simp
  from in1 fetchBets_page [OF h(1), of "''u1''" "''b1''" All_statuses ?db]
  obtain items ordered where
    f1: "fetchBets ''u1'' ''b1'' All_statuses 1 ?db =
           Some (items, length (matching_wagers ''u1'' ''b1'' All_statuses ?db))"
    and o1: "mset ordered = mset (matching_wagers ''u1'' ''b1'' All_statuses ?db)"
      "sorted_wrt newest_first ordered"
    and i1: "items = take 10 (drop (nat (10 * (1 - 1))) ordered)"
    by blast
  from o1 have "ordered = [?w2, ?w1]"
    unfolding m by (rule ord)
  with i1 have "items = [?w2, ?w1]" by simp
  with f1 total have first:
    "fetchBets ''u1'' ''b1'' All_statuses 1 ?db = Some ([?w2, ?w1], 2)"
    by simp
  from out2 fetchBets_page [OF h(2), of "''u1''" "''b1''" All_statuses ?db]
  have second: "fetchBets ''u1'' ''b1'' All_statuses 2 ?db = None"
    by blast
  from in_none fetchBets_page [OF h(1), of "''u1''" "''b1''" All_statuses ?none]
  obtain items_none where
    f_none: "fetchBets ''u1'' ''b1'' All_statuses 1 ?none =
           Some (items_none, length (matching_wagers ''u1'' ''b1'' All_statuses ?none))"
    and l_none: "int (length items_none) =
           min 10 (int (length (matching_wagers ''u1'' ''b1'' All_statuses ?none)) - 10 * (1 - 1))"
    by blast
  from l_none have "items_none = []"
    unfolding total_none by simp
  with f_none total_none have empty: "fetchBets ''u1'' ''b1'' All_statuses 1 ?none = Some ([], 0)"
    by simp
  from first second empty show ?thesis by (intro conjI)
qed

text \<open>
  C7 as the specification words it has page 2 of two matching wagers, a page beyond
  \<open>ceil (2 / 10) = 1\<close>, return 0 items together with the total 2; \<open>fetchBets\<close> returns
  nothing there.
\<close>

theorem fetchBets_beyond_total_fails:
  "totalPages 2 < 2 \<and>
   length (matching_wagers ''u1'' ''b1'' All_statuses
       \<lparr>banks = [example_bank 1150 2],
        bets = [example_bet ''w1'' ''u1'' 100 (5 / 2) Won (Some 150) 1 1,
                example_bet ''w2'' ''u1'' 50 (18 / 10) Lost (Some (- 50)) 2 2]\<rparr>) = 2 \<and>
   fetchBets ''u1'' ''b1'' All_statuses 2
       \<lparr>banks = [example_bank 1150 2],
        bets = [example_bet ''w1'' ''u1'' 100 (5 / 2) Won (Some 150) 1 1,
                example_bet ''w2'' ''u1'' 50 (18 / 10) Lost (Some (- 50)) 2 2]\<rparr> \<noteq>
     Some ([], 2)"
proof -
  have "totalPages 2 = 1"
    by (simp add: totalPages_def ITEMS_PER_PAGE_def ceiling_eq_iff)
  then show ?thesis
    by (simp add: matching_wagers_def status_matches_def fetchBets_def select_bets_def
        range_rows_def ITEMS_PER_PAGE_def order_desc_def example_bet_def)
qed

section \<open>Validation of a new wager\<close>

text \<open>
  C8. When the stake does not parse or is 0 or less, or the odds do not parse or are below
  1, or no bank is selected, \<open>handleSubmit\<close> ends with the validation error of the first
  of these checks that fails, in the order stake, odds, bank; the error names a
  constraint that the input violates, and the database is the one before the call.
\<close>

theorem handleSubmit_rejects:
  assumes "parseFloat (amount_text form) = NaN \<or>
           (\<exists>a. parseFloat (amount_text form) = Num a \<and> a \<le> 0) \<or>
           parseFloat (odds_text form) = NaN \<or>
           (\<exists>x. parseFloat (odds_text form) = Num x \<and> x < 1) \<or>
           bankId form = []"
  shows "\<exists>c. handleSubmit parseFloat session now new_id form db = (ValidationError c, db) \<and>
           (case c of
              AmountNotPositive \<Rightarrow>
                parseFloat (amount_text form) = NaN \<or>
                (\<exists>a. parseFloat (amount_text form) = Num a \<and> a \<le> 0)
            | OddsBelowOne \<Rightarrow>
                parseFloat (odds_text form) = NaN \<or>
                (\<exists>x. parseFloat (odds_text form) = Num x \<and> x < 1)
            | NoBankSelected \<Rightarrow> bankId form = [])"
proof -
  let ?a = "parseFloat (amount_text form)" and ?o = "parseFloat (odds_text form)"
  have a_iff: "isNaN ?a \<or> js_le ?a 0 \<longleftrightarrow> ?a = NaN \<or> (\<exists>a. ?a = Num a \<and> a \<le> 0)"
    by (cases ?a) (simp_all add: isNaN_def js_le_def)
  have o_iff: "isNaN ?o \<or> js_lt ?o 1 \<longleftrightarrow> ?o = NaN \<or> (\<exists>x. ?o = Num x \<and> x < 1)"
    by (cases ?o) (simp_all add: isNaN_def js_lt_def)
  consider (amount) "isNaN ?a \<or> js_le ?a 0"
    | (odds) "\<not> (isNaN ?a \<or> js_le ?a 0)" "isNaN ?o \<or> js_lt ?o 1"
    | (bank) "\<not> (isNaN ?a \<or> js_le ?a 0)" "\<not> (isNaN ?o \<or> js_lt ?o 1)" "bankId form = []"
    using assms a_iff o_iff by blast
  then show ?thesis
  proof cases
    case amount
    then have "handleSubmit parseFloat session now new_id form db =
                 (ValidationError AmountNotPositive, db)"
      by (simp add: handleSubmit_def Let_def)
    with amount a_iff show ?thesis by simp
  next
    case odds
    then have "handleSubmit parseFloat session now new_id form db =
                 (ValidationError OddsBelowOne, db)"
      by (simp add: handleSubmit_def Let_def)
    with odds o_iff show ?thesis by simp
  next
    case bank
    then have "handleSubmit parseFloat session now new_id form db =
                 (ValidationError NoBankSelected, db)"
      by (simp add: handleSubmit_def Let_def)
    with bank show ?thesis by simp
  qed
qed

text \<open>
  The theorem on three forms: a stake of 0, odds of 0.5, and no bank selected. Each is
  rejected with its own error and the database is left as it was.
\<close>

theorem handleSubmit_rejects_witness:
  "handleSubmit example_parseFloat (Some ''u1'') 1 ''w1'' (example_form ''b1'' ''0'' ''2.5'')
       \<lparr>banks = [example_bank 1000 0], bets = []\<rparr> =
     (ValidationError AmountNotPositive, \<lparr>banks = [example_bank 1000 0], bets = []\<rparr>) \<and>
   handleSubmit example_parseFloat (Some ''u1'') 1 ''w1'' (example_form ''b1'' ''100'' ''0.5'')
       \<lparr>banks = [example_bank 1000 0], bets = []\<rparr> =
     (ValidationError OddsBelowOne, \<lparr>banks = [example_bank 1000 0], bets = []\<rparr>) \<and>
   handleSubmit example_parseFloat (Some ''u1'') 1 ''w1'' (example_form [] ''100'' ''2.5'')
       \<lparr>banks = [example_bank 1000 0], bets = []\<rparr> =
     (ValidationError NoBankSelected, \<lparr>banks = [example_bank 1000 0], bets = []\<rparr>)"
proof -
  let ?db = "\<lparr>banks = [example_bank 1000 0], bets = []\<rparr>"
  let ?f1 = "example_form ''b1'' ''0'' ''2.5''"
  let ?f2 = "example_form ''b1'' ''100'' ''0.5''"
  let ?f3 = "example_form [] ''100'' ''2.5''"
  have h1: "\<exists>a. example_parseFloat (amount_text ?f1) = Num a \<and> a \<le> 0"
    by (rule exI [of _ 0]) (simp add: example_parseFloat_def example_form_def)
  have h2: "\<exists>x. example_parseFloat (odds_text ?f2) = Num x \<and> x < 1"
    by (rule exI [of _ "1 / 2"]) (simp add: example_parseFloat_def example_form_def)
  have h3: "bankId ?f3 = []"
    by (simp add: example_form_def)
  from h1 handleSubmit_rejects [of example_parseFloat ?f1 "Some ''u1''" 1 "''w1''" ?db]
  obtain c1 where c1:
    "handleSubmit example_parseFloat (Some ''u1'') 1 ''w1'' ?f1 ?db = (ValidationError c1, ?db)"
    and k1: "case c1 of
       AmountNotPositive \<Rightarrow>
         example_parseFloat (amount_text ?f1) = NaN \<or>
         (\<exists>a. example_parseFloat (amount_text ?f1) = Num a \<and> a \<le> 0)
     | OddsBelowOne \<Rightarrow>
         example_parseFloat (odds_text ?f1) = NaN \<or>
         (\<exists>x. example_parseFloat (odds_text ?f1) = Num x \<and> x < 1)
     | NoBankSelected \<Rightarrow> bankId ?f1 = []"
    by blast
  from k1 have r1: "c1 = AmountNotPositive"
    by (cases c1) (auto simp: example_parseFloat_def example_form_def)
  from h2 handleSubmit_rejects [of example_parseFloat ?f2 "Some ''u1''" 1 "''w1''" ?db]
  obtain c2 where c2:
    "handleSubmit example_parseFloat (Some ''u1'') 1 ''w1'' ?f2 ?db = (ValidationError c2, ?db)"
    and k2: "case c2 of
       AmountNotPositive \<Rightarrow>
         example_parseFloat (amount_text ?f2) = NaN \<or>
         (\<exists>a. example_parseFloat (amount_text ?f2) = Num a \<and> a \<le> 0)
     | OddsBelowOne \<Rightarrow>
         example_parseFloat (odds_text ?f2) = NaN \<or>
         (\<exists>x. example_parseFloat (odds_text ?f2) = Num x \<and> x < 1)
     | NoBankSelected \<Rightarrow> bankId ?f2 = []"
    by blast
  from k2 have r2: "c2 = OddsBelowOne"
    by (cases c2) (auto simp: example_parseFloat_def example_form_def)
  from h3 handleSubmit_rejects [of example_parseFloat ?f3 "Some ''u1''" 1 "''w1''" ?db]
  obtain c3 where c3:
    "handleSubmit example_parseFloat (Some ''u1'') 1 ''w1'' ?f3 ?db = (ValidationError c3, ?db)"
    and k3: "case c3 of
       AmountNotPositive \<Rightarrow>
         example_parseFloat (amount_text ?f3) = NaN \<or>
         (\<exists>a. example_parseFloat (amount_text ?f3) = Num a \<and> a \<le> 0)
     | OddsBelowOne \<Rightarrow>
         example_parseFloat (odds_text ?f3) = NaN \<or>
         (\<exists>x. example_parseFloat (odds_text ?f3) = Num x \<and> x < 1)
     | NoBankSelected \<Rightarrow> bankId ?f3 = []"
    by blast
  from k3 have r3: "c3 = NoBankSelected"
    by (cases c3) (auto simp: example_parseFloat_def example_form_def)
  from c1 c2 c3 show ?thesis
    unfolding r1 r2 r3 by (intro conjI)
qed

section \<open>Rows of another user\<close>

text \<open>
  C9. The INSERT policy on \<open>bets\<close> looks at the row's \<open>user_id\<close> only, and the trigger
  updates \<open>banks\<close> with the rights of its owner. Here user \<open>u2\<close> inserts a won wager of
  profit 1000 on the bank \<open>b1\<close> of user \<open>u1\<close> and then writes it once more: both
  statements succeed, and the bank row of \<open>u1\<close>, whose balance was 1150, reads 2150, while
  the only wager \<open>u1\<close> can see has the profit 150.
\<close>

theorem other_user_moves_balance:
  "insert_bet ''u2'' 4 (example_bet ''x1'' ''u2'' 1000 2 Won None 4 4)
       \<lparr>banks = [example_bank 1150 2],
        bets = [example_bet ''w1'' ''u1'' 100 (5 / 2) Won (Some 150) 1 2]\<rparr> =
     Inr \<lparr>banks = [example_bank 1150 4],
          bets = [example_bet ''w1'' ''u1'' 100 (5 / 2) Won (Some 150) 1 2,
                  example_bet ''x1'' ''u2'' 1000 2 Won (Some 1000) 4 4]\<rparr> \<and>
   updateBetStatus ''u2'' 5 ''x1'' Won
       \<lparr>banks = [example_bank 1150 4],
        bets = [example_bet ''w1'' ''u1'' 100 (5 / 2) Won (Some 150) 1 2,
                example_bet ''x1'' ''u2'' 1000 2 Won (Some 1000) 4 4]\<rparr> =
     Inr \<lparr>banks = [example_bank 2150 5],
          bets = [example_bet ''w1'' ''u1'' 100 (5 / 2) Won (Some 150) 1 2,
                  example_bet ''x1'' ''u2'' 1000 2 Won (Some 1000) 4 5]\<rparr> \<and>
   banks_user_id (example_bank 2150 5) = ''u1'' \<and>
   select_banks ''u1''
       \<lparr>banks = [example_bank 2150 5],
        bets = [example_bet ''w1'' ''u1'' 100 (5 / 2) Won (Some 150) 1 2,
                example_bet ''x1'' ''u2'' 1000 2 Won (Some 1000) 4 5]\<rparr> =
     [example_bank 2150 5] \<and>
   select_bets ''u1''
       \<lparr>banks = [example_bank 2150 5],
        bets = [example_bet ''w1'' ''u1'' 100 (5 / 2) Won (Some 150) 1 2,
                example_bet ''x1'' ''u2'' 1000 2 Won (Some 1000) 4 5]\<rparr> =
     [example_bet ''w1'' ''u1'' 100 (5 / 2) Won (Some 150) 1 2]"
  by (simp add: eval_store)

section \<open>The daily aggregate\<close>

lemma daily_stats_step_fields:
  "total_bets (daily_stats_step ops acc b) = total_bets acc + 1"
  "total_won (daily_stats_step ops acc b) = total_won acc + (if js_status b = Won then 1 else 0)"
  "total_lost (daily_stats_step ops acc b) =
     total_lost acc + (if js_status b = Lost then 1 else 0)"
  "net_profit (daily_stats_step ops acc b) =
     (if js_status b = Open then net_profit acc
      else num_add ops (net_profit acc) (or_zero ops (js_profit b)))"
  by (cases "js_status b"; simp add: daily_stats_step_def Let_def)+

lemma foldl_daily_stats:
  "total_bets (foldl (daily_stats_step ops) acc rows) = total_bets acc + length rows \<and>
   total_won (foldl (daily_stats_step ops) acc rows) =
     total_won acc + length (filter (\<lambda>b. js_status b = Won) rows) \<and>
   total_lost (foldl (daily_stats_step ops) acc rows) =
     total_lost acc + length (filter (\<lambda>b. js_status b = Lost) rows) \<and>
   net_profit (foldl (daily_stats_step ops) acc rows) =
     foldl (num_add ops) (net_profit acc) (settled_contributions ops rows)"
  by (induction rows arbitrary: acc)
    (simp_all add: daily_stats_step_fields settled_contributions_def)

lemma daily_summary_step_fields:
  "total (daily_summary_step ops acc b) = total acc + 1"
  "won (daily_summary_step ops acc b) = won acc + (if js_status b = Won then 1 else 0)"
  "lost (daily_summary_step ops acc b) = lost acc + (if js_status b = Lost then 1 else 0)"
  "summary_profit (daily_summary_step ops acc b) =
     (if js_status b = Open then summary_profit acc
      else num_add ops (summary_profit acc) (or_zero ops (js_profit b)))"
  "wagered (daily_summary_step ops acc b) = num_add ops (wagered acc) (js_amount b)"
  by (cases "js_status b"; simp add: daily_summary_step_def Let_def)+

lemma foldl_daily_summary:
  "total (foldl (daily_summary_step ops) acc rows) = total acc + length rows \<and>
   won (foldl (daily_summary_step ops) acc rows) =
     won acc + length (filter (\<lambda>b. js_status b = Won) rows) \<and>
   lost (foldl (daily_summary_step ops) acc rows) =
     lost acc + length (filter (\<lambda>b. js_status b = Lost) rows) \<and>
   summary_profit (foldl (daily_summary_step ops) acc rows) =
     foldl (num_add ops) (summary_profit acc) (settled_contributions ops rows)"
  by (induction rows arbitrary: acc)
    (simp_all add: daily_summary_step_fields settled_contributions_def)

lemma fetchDailyStats_rows:
  "filter (\<lambda>r. bet_date r = today) (filter (\<lambda>r. bank_id r = bank) (select_bets uid db)) =
     day_wagers uid bank today db"
  by (auto simp: day_wagers_def select_bets_def intro: filter_cong)

lemma read_bet_status: "filter (\<lambda>b. js_status b = s) (map (read_bet ops) rows) =
    map (read_bet ops) (filter (\<lambda>r. status r = s) rows)"
  by (induction rows) (simp_all add: read_bet_def)

text \<open>
  C10. In both daily aggregates, \<open>fetchDailyStats\<close> of the dashboard and
  \<open>calculateDailySummary\<close> of the daily page, and whatever the arithmetic of the page's
  numbers: a won or lost wager whose profit is null is counted as won or lost, and what
  is added to the net profit for it is the number 0; it is treated as the same wager
  with the profit 0. An open wager adds 1 to the total and leaves the won count, the lost
  count and the net profit as they are: nothing is added for it. Over the wagers of a
  day, the total is their number, the won and lost counts are the numbers of won and of
  lost wagers, and the net profit is 0 with the \<open>settled_contributions\<close> added to it one
  after the other, in the order of the rows.
\<close>

theorem daily_aggregate:
  "daily_stats_step ops acc (b\<lparr>js_status := Won, js_profit := None\<rparr>) =
     acc\<lparr>total_bets := total_bets acc + 1, total_won := total_won acc + 1,
         net_profit := num_add ops (net_profit acc) (num_zero ops)\<rparr> \<and>
   daily_stats_step ops acc (b\<lparr>js_status := Lost, js_profit := None\<rparr>) =
     acc\<lparr>total_bets := total_bets acc + 1, total_lost := total_lost acc + 1,
         net_profit := num_add ops (net_profit acc) (num_zero ops)\<rparr> \<and>
   daily_stats_step ops acc (b\<lparr>js_profit := None\<rparr>) =
     daily_stats_step ops acc (b\<lparr>js_profit := Some (num_zero ops)\<rparr>) \<and>
   daily_stats_step ops acc (b\<lparr>js_status := Open\<rparr>) = acc\<lparr>total_bets := total_bets acc + 1\<rparr> \<and>
   daily_summary_step ops sm (b\<lparr>js_status := Won, js_profit := None\<rparr>) =
     sm\<lparr>total := total sm + 1, won := won sm + 1,
        summary_profit := num_add ops (summary_profit sm) (num_zero ops),
        wagered := num_add ops (wagered sm) (js_amount b)\<rparr> \<and>
   daily_summary_step ops sm (b\<lparr>js_status := Lost, js_profit := None\<rparr>) =
     sm\<lparr>total := total sm + 1, lost := lost sm + 1,
        summary_profit := num_add ops (summary_profit sm) (num_zero ops),
        wagered := num_add ops (wagered sm) (js_amount b)\<rparr> \<and>
   daily_summary_step ops sm (b\<lparr>js_profit := None\<rparr>) =
     daily_summary_step ops sm (b\<lparr>js_profit := Some (num_zero ops)\<rparr>) \<and>
   daily_summary_step ops sm (b\<lparr>js_status := Open\<rparr>) =
     sm\<lparr>total := total sm + 1, wagered := num_add ops (wagered sm) (js_amount b)\<rparr> \<and>
   total_bets (fetchDailyStats ops uid bank today db) = length (day_wagers uid bank today db) \<and>
   total_won (fetchDailyStats ops uid bank today db) =
     length (filter (\<lambda>r. status r = Won) (day_wagers uid bank today db)) \<and>
   total_lost (fetchDailyStats ops uid bank today db) =
     length (filter (\<lambda>r. status r = Lost) (day_wagers uid bank today db)) \<and>
   net_profit (fetchDailyStats ops uid bank today db) =
     foldl (num_add ops) (num_zero ops)
       (settled_contributions ops (map (read_bet ops) (day_wagers uid bank today db))) \<and>
   total (calculateDailySummary ops rows) = length rows \<and>
   won (calculateDailySummary ops rows) = length (filter (\<lambda>b. js_status b = Won) rows) \<and>
   lost (calculateDailySummary ops rows) = length (filter (\<lambda>b. js_status b = Lost) rows) \<and>
   summary_profit (calculateDailySummary ops rows) =
     foldl (num_add ops) (num_zero ops) (settled_contributions ops rows)"
proof -
  have steps:
    "daily_stats_step ops acc (b\<lparr>js_status := Won, js_profit := None\<rparr>) =
       acc\<lparr>total_bets := total_bets acc + 1, total_won := total_won acc + 1,
           net_profit := num_add ops (net_profit acc) (num_zero ops)\<rparr>"
    "daily_stats_step ops acc (b\<lparr>js_status := Lost, js_profit := None\<rparr>) =
       acc\<lparr>total_bets := total_bets acc + 1, total_lost := total_lost acc + 1,
           net_profit := num_add ops (net_profit acc) (num_zero ops)\<rparr>"
    "daily_stats_step ops acc (b\<lparr>js_profit := None\<rparr>) =
       daily_stats_step ops acc (b\<lparr>js_profit := Some (num_zero ops)\<rparr>)"
    "daily_stats_step ops acc (b\<lparr>js_status := Open\<rparr>) = acc\<lparr>total_bets := total_bets acc + 1\<rparr>"
    "daily_summary_step ops sm (b\<lparr>js_status := Won, js_profit := None\<rparr>) =
       sm\<lparr>total := total sm + 1, won := won sm + 1,
          summary_profit := num_add ops (summary_profit sm) (num_zero ops),
          wagered := num_add ops (wagered sm) (js_amount b)\<rparr>"
    "daily_summary_step ops sm (b\<lparr>js_status := Lost, js_profit := None\<rparr>) =
       sm\<lparr>total := total sm + 1, lost := lost sm + 1,
          summary_profit := num_add ops (summary_profit sm) (num_zero ops),
          wagered := num_add ops (wagered sm) (js_amount b)\<rparr>"
    "daily_summary_step ops sm (b\<lparr>js_profit := None\<rparr>) =
       daily_summary_step ops sm (b\<lparr>js_profit := Some (num_zero ops)\<rparr>)"
    "daily_summary_step ops sm (b\<lparr>js_status := Open\<rparr>) =
       sm\<lparr>total := total sm + 1, wagered := num_add ops (wagered sm) (js_amount b)\<rparr>"
    by (simp_all add: daily_stats_step_def daily_summary_step_def Let_def or_zero_def)
  have stats: "fetchDailyStats ops uid bank today db =
      foldl (daily_stats_step ops)
        \<lparr>total_bets = 0, total_won = 0, total_lost = 0, net_profit = num_zero ops\<rparr>
        (map (read_bet ops) (day_wagers uid bank today db))"
    by (simp only: fetchDailyStats_def fetchDailyStats_rows)
  have folds:
    "total_bets (fetchDailyStats ops uid bank today db) = length (day_wagers uid bank today db)"
    "total_won (fetchDailyStats ops uid bank today db) =
       length (filter (\<lambda>r. status r = Won) (day_wagers uid bank today db))"
    "total_lost (fetchDailyStats ops uid bank today db) =
       length (filter (\<lambda>r. status r = Lost) (day_wagers uid bank today db))"
    "net_profit (fetchDailyStats ops uid bank today db) =
       foldl (num_add ops) (num_zero ops)
         (settled_contributions ops (map (read_bet ops) (day_wagers uid bank today db)))"
    "total (calculateDailySummary ops rows) = length rows"
    "won (calculateDailySummary ops rows) = length (filter (\<lambda>b. js_status b = Won) rows)"
    "lost (calculateDailySummary ops rows) = length (filter (\<lambda>b. js_status b = Lost) rows)"
    "summary_profit (calculateDailySummary ops rows) =
       foldl (num_add ops) (num_zero ops) (settled_contributions ops rows)"
    unfolding stats calculateDailySummary_def
    by (simp_all add: foldl_daily_stats foldl_daily_summary read_bet_status)
  from steps folds show ?thesis by (intro conjI)
qed

end
